theory Spec2Isabelle
  imports Main "HOL-Library.Sublist"
begin

section \<open>Data model (types.ts and the state of the App component)\<close>

text \<open>
  Strings are byte lists: a JavaScript string is modelled by its UTF-8 encoding, so the
  three non-ASCII letters of the one religion name that has them are written as bytes.
\<close>

record PatientInfo =
  name :: string
  age :: string
  district :: string
  cell :: string
  religion :: string
  language :: string

text \<open>The three members of the enum \<open>TreatmentType\<close>, as the strings they stand for.\<close>

definition Hikmat :: string where
  \<open>Hikmat = ''Hikmat (Traditional Herbal)''\<close>

definition Homeopathy :: string where
  \<open>Homeopathy = ''Homeopathy''\<close>

definition SpecialistDoctors :: string where
  \<open>SpecialistDoctors = ''Allopathy (Specialist Doctors)''\<close>

definition Bahai_Faith :: string where
  \<open>Bahai_Faith = ''Bah'' @ [CHR 0xC3, CHR 0xA1, CHR 0xCA, CHR 0xBC, CHR 0xC3, CHR 0xAD] @ '' Faith''\<close>

definition Bahaullah_label :: string where
  \<open>Bahaullah_label = ''Writings of Bah'' @ [CHR 0xC3, CHR 0xA1, CHR 0xCA, CHR 0xBC] @ ''u'll''
     @ [CHR 0xC3, CHR 0xA1] @ ''h & Prayer''\<close>

text \<open>
  The object \<open>ReligiousTreatments\<close> of types.ts, in the order of its ten entries. A key
  that is not one of the ten has no own property; the lookup of such a key is \<open>None\<close>
  (a key inherited from the object prototype gives a function, which is never a member of
  a set of strings, so deleting it from the selection changes nothing either).
\<close>

definition ReligiousTreatments_table :: \<open>(string \<times> string) list\<close> where
  \<open>ReligiousTreatments_table =
    [(''Islam'', ''Quran & Asma-ul-Husna''),
     (''Christianity'', ''Biblical Healing & Prayer''),
     (''Hinduism'', ''Ayurveda & Mantras''),
     (''Buddhism'', ''Meditation & Chanting''),
     (''Sikhism'', ''Gurbani Recitation & Seva''),
     (''Judaism'', ''Torah Study & Prayer''),
     (Bahai_Faith, Bahaullah_label),
     (''Chinese Folk Religion'', ''Ancestral Veneration & Herbal Remedies''),
     (''Spiritism'', ''Spiritual Counsel & Healing''),
     (''Ethnic/Indigenous Religions'', ''Traditional Rituals & Natural Healing'')]\<close>

definition ReligiousTreatments :: \<open>string \<Rightarrow> string option\<close> where
  \<open>ReligiousTreatments k = map_of ReligiousTreatments_table k\<close>

text \<open>A browser \<open>File\<close>: the three properties the component reads.\<close>

record File =
  file_name :: string
  file_type :: string
  file_size :: nat

text \<open>\<open>FilePart\<close>: the \<open>inlineData\<close> object; \<open>data\<close> is \<open>None\<close> where JavaScript has \<open>undefined\<close>.\<close>

record FilePart =
  mimeType :: string
  data :: \<open>string option\<close>

text \<open>
  A JSON value as \<open>JSON.parse\<close> returns it. A number keeps its lexeme (its value as a
  double matters only for its truthiness, which is computed from the lexeme); an object
  keeps its members in source order, duplicates included, and a property read takes the
  last member of that name.
\<close>

datatype json =
    JNull
  | JBool bool
  | JNum string
  | JStr string
  | JArr \<open>json list\<close>
  | JObj \<open>(string \<times> json) list\<close>

text \<open>The state variable \<open>error\<close>: \<open>null\<close>, a string, or \<open>undefined\<close>.\<close>

datatype js_message = Null | Undefined | Text string

datatype tab = TabText | TabUpload

text \<open>
  The state of the component, one field per \<open>useState\<close>. The selection is a JavaScript
  \<open>Set\<close>, which iterates in insertion order: a list without duplicates. The state
  variable \<open>prescription\<close> holds whatever was parsed; \<open>JNull\<close> is \<open>null\<close>.
\<close>

record app_state =
  patientInfo :: PatientInfo
  symptomDescription :: string
  reportComments :: string
  selectedTreatments :: \<open>string list\<close>
  isLoading :: bool
  error :: js_message
  prescription :: json
  activeTab :: tab
  uploadedFiles :: \<open>File list\<close>
  isDragging :: bool

definition default_patientInfo :: PatientInfo where
  \<open>default_patientInfo =
    \<lparr>name = '''', age = '''', district = '''', cell = '''', religion = '''', language = ''English''\<rparr>\<close>

definition initial_state :: app_state where
  \<open>initial_state =
    \<lparr>patientInfo = default_patientInfo, symptomDescription = '''', reportComments = '''',
     selectedTreatments = [], isLoading = False, error = Null, prescription = JNull,
     activeTab = TabText, uploadedFiles = [], isDragging = False\<rparr>\<close>

section \<open>File handling\<close>





definition removeFile :: \<open>string \<Rightarrow> app_state \<Rightarrow> app_state\<close> where
  \<open>removeFile fileName st =
    st\<lparr>uploadedFiles := filter (\<lambda>file. file_name file \<noteq> fileName) (uploadedFiles st)\<rparr>\<close>

section \<open>Form fields and the treatment selection\<close>

text \<open>\<open>Set.prototype.delete\<close> and \<open>add\<close> on the insertion-ordered selection.\<close>

definition set_delete :: \<open>string \<Rightarrow> string list \<Rightarrow> string list\<close> where
  \<open>set_delete x xs = filter (\<lambda>y. y \<noteq> x) xs\<close>

definition set_add :: \<open>string \<Rightarrow> string list \<Rightarrow> string list\<close> where
  \<open>set_add x xs = (if x \<in> set xs then xs else xs @ [x])\<close>

text \<open>
  The computed property write \<open>{...prev, [name]: value}\<close>. The form has six inputs bound
  to this handler; any other name would add a property that \<open>PatientInfo\<close> does not have
  and nothing reads, so the record is left as it is.
\<close>

definition set_field :: \<open>string \<Rightarrow> string \<Rightarrow> PatientInfo \<Rightarrow> PatientInfo\<close> where
  \<open>set_field n v p =
    (if n = ''name'' then p\<lparr>name := v\<rparr>
     else if n = ''age'' then p\<lparr>age := v\<rparr>
     else if n = ''district'' then p\<lparr>district := v\<rparr>
     else if n = ''cell'' then p\<lparr>cell := v\<rparr>
     else if n = ''religion'' then p\<lparr>religion := v\<rparr>
     else if n = ''language'' then p\<lparr>language := v\<rparr>
     else p)\<close>

definition handleInputChange :: \<open>string \<Rightarrow> string \<Rightarrow> app_state \<Rightarrow> app_state\<close> where
  \<open>handleInputChange n v st =
    (let st1 =
       (if n = ''religion'' then
          (case ReligiousTreatments (religion (patientInfo st)) of
             Some currentReligiousTreatment \<Rightarrow>
               st\<lparr>selectedTreatments := set_delete currentReligiousTreatment (selectedTreatments st)\<rparr>
           | None \<Rightarrow> st)
        else st)
     in st1\<lparr>patientInfo := set_field n v (patientInfo st1)\<rparr>)\<close>

definition handleTreatmentToggle :: \<open>string \<Rightarrow> app_state \<Rightarrow> app_state\<close> where
  \<open>handleTreatmentToggle treatment st =
    st\<lparr>selectedTreatments :=
      (if treatment \<in> set (selectedTreatments st)
       then set_delete treatment (selectedTreatments st)
       else set_add treatment (selectedTreatments st))\<rparr>\<close>

definition resetForm :: \<open>app_state \<Rightarrow> app_state\<close> where
  \<open>resetForm st =
    st\<lparr>patientInfo := default_patientInfo, symptomDescription := '''', reportComments := '''',
       selectedTreatments := [], prescription := JNull, error := Null, uploadedFiles := [],
       activeTab := TabText\<rparr>\<close>

definition handleEdit :: \<open>app_state \<Rightarrow> app_state\<close> where
  \<open>handleEdit st = st\<lparr>prescription := JNull\<rparr>\<close>

section \<open>The prompt builder (services/geminiService.ts)\<close>

text \<open>\<open>Array.prototype.join\<close> on strings.\<close>

fun join :: \<open>string \<Rightarrow> string list \<Rightarrow> string\<close> where
  \<open>join sep [] = ''''\<close>
| \<open>join sep [x] = x\<close>
| \<open>join sep (x # y # ys) = x @ sep @ join sep (y # ys)\<close>

text \<open>
  The read \<open>ReligiousTreatments.K\<close> inside a template literal or a computed key: the label,
  or the text \<open>undefined\<close> for a key the table lacks.
\<close>

definition RT :: \<open>string \<Rightarrow> string\<close> where
  \<open>RT k = (case ReligiousTreatments k of Some l \<Rightarrow> l | None \<Rightarrow> ''undefined'')\<close>

definition urdu_script_rule :: string where
  \<open>urdu_script_rule = ''If the target language is Urdu, this MUST be in Urdu script.''\<close>

definition religiousTreatmentPrompts_table :: \<open>(string \<times> string) list\<close> where
  \<open>religiousTreatmentPrompts_table =
    [(RT ''Islam'', ''- For "'' @ RT ''Islam'' @
        ''", provide relevant Quranic verses or duas, and recommend 'tasbeeh' (recitation) of Asma-ul-Husna relevant to healing. Use bullet points. '' @
        urdu_script_rule),
     (RT ''Christianity'', ''- For "'' @ RT ''Christianity'' @
        ''", provide relevant Bible verses and suggest prayers. Use bullet points.''),
     (RT ''Hinduism'', ''- For "'' @ RT ''Hinduism'' @
        ''", provide relevant Ayurvedic remedies and suggest healing mantras. Use bullet points.''),
     (RT ''Buddhism'', ''- For "'' @ RT ''Buddhism'' @
        ''", suggest meditation techniques and healing chants or sutras. Use bullet points.''),
     (RT ''Sikhism'', ''- For "'' @ RT ''Sikhism'' @
        ''", recommend reciting Shabads from the Gurbani and suggest 'Seva' (selfless service). Use bullet points.''),
     (RT ''Judaism'', ''- For "'' @ RT ''Judaism'' @
        ''", provide relevant passages from the Torah or Psalms and suggest prayers. Use bullet points.''),
     (RT Bahai_Faith, ''- For "'' @ RT Bahai_Faith @
        ''", provide excerpts from the Writings of Bah'' @ [CHR 0xC3, CHR 0xA1, CHR 0xCA, CHR 0xBC] @
        ''u'll'' @ [CHR 0xC3, CHR 0xA1] @ ''h and suggest prayers for health. Use bullet points.''),
     (RT ''Chinese Folk Religion'', ''- For "'' @ RT ''Chinese Folk Religion'' @
        ''", suggest practices like ancestral offerings and common herbal remedies. Use bullet points.''),
     (RT ''Spiritism'', ''- For "'' @ RT ''Spiritism'' @
        ''", provide spiritual counsel and suggest practices like positive affirmations. Use bullet points.''),
     (RT ''Ethnic/Indigenous Religions'', ''- For "'' @ RT ''Ethnic/Indigenous Religions'' @
        ''", suggest connecting with nature and general traditional rituals. Use bullet points.'')]\<close>

text \<open>
  The ten keys are distinct, so the first match of the association list is the property.
  Every selectable label is one of the three modalities or one of the ten labels; for any
  other string the object has no own property.
\<close>

definition religiousTreatmentPrompts :: \<open>string \<Rightarrow> string option\<close> where
  \<open>religiousTreatmentPrompts treatment = map_of religiousTreatmentPrompts_table treatment\<close>

text \<open>\<open>selectedTreatments.map(...).filter(Boolean)\<close>: every fragment is a non-empty string.\<close>

definition religiousRules :: \<open>string list \<Rightarrow> string list\<close> where
  \<open>religiousRules selected = List.map_filter religiousTreatmentPrompts selected\<close>

definition allopathy_rule :: string where
  \<open>allopathy_rule =
    ''- For **Allopathy (Specialist Doctors)**, act as a board-certified specialist for the specific condition. Prescribe a comprehensive, high-quality, and modern treatment plan. Include primary medications, any necessary supportive therapies (e.g., vitamins, antacids), and suggest relevant diagnostic tests if needed. Use the format: `Medicine Name, Dosage (e.g., 500mg, 1+1+1), Duration (e.g., 5 days)`. List each item on a new bullet point (*). Ensure the prescription is evidence-based and professional.''\<close>

definition homeopathy_rule :: string where
  \<open>homeopathy_rule =
    ''- For **Homeopathy**, use this format: `Medicine Name Potency, Dosage (e.g., 5+5+5 drops), Duration (e.g., 7 days)`. New bullet point (*) per medicine. No paragraphs.''\<close>

definition hikmat_rule :: string where
  \<open>hikmat_rule = ''- For **Hikmat**, use simple bullet points with brief descriptions.''\<close>

definition prompt_rules :: \<open>string \<Rightarrow> string list \<Rightarrow> string\<close> where
  \<open>prompt_rules lang selected =
    ''\<newline>'' @
    ''    You are an expert AI medical advisor. Your task is to provide concise, safe, and professional recommendations.\<newline>'' @
    ''\<newline>'' @
    ''    **PRIMARY LANGUAGE RULE:**\<newline>'' @
    ''    - You MUST generate the ENTIRE response in **'' @ lang @
    ''**. This includes all headings, titles, medical terms, treatment plans, analysis, and advice. Translate everything accurately and naturally.\<newline>'' @
    ''\<newline>'' @
    ''    **FORMATTING RULES:**\<newline>'' @
    ''    '' @ allopathy_rule @ ''\<newline>'' @
    ''    '' @ homeopathy_rule @ ''\<newline>'' @
    ''    '' @ hikmat_rule @ ''\<newline>'' @
    ''    '' @ join ''\<newline>            '' (religiousRules selected) @ ''\<newline>''\<close>

definition prompt_patient :: \<open>PatientInfo \<Rightarrow> string\<close> where
  \<open>prompt_patient p =
    ''\<newline>'' @
    ''    **Patient Information:**\<newline>'' @
    ''    - Name: '' @ name p @ ''\<newline>'' @
    ''    - Age: '' @ age p @ ''\<newline>'' @
    ''    - District: '' @ district p @ ''\<newline>'' @
    ''    - Religion: '' @ religion p @ ''\<newline>'' @
    ''    - Preferred Language: '' @ language p @ ''\<newline>'' @
    ''    '' @ (if cell p \<noteq> '''' then ''- Cell: '' @ cell p else '''') @ ''\<newline>''\<close>

definition prompt_description :: \<open>bool \<Rightarrow> string \<Rightarrow> string\<close> where
  \<open>prompt_description hasFiles illnessDescription =
    (if hasFiles
     then ''**User Comments on Reports:**\<newline>'' @ ''      "'' @ illnessDescription @ ''"''
     else ''**Illness Description:**\<newline>'' @ ''      "'' @ illnessDescription @ ''"'')\<close>

definition analyze_reports_step :: \<open>string \<Rightarrow> string\<close> where
  \<open>analyze_reports_step lang =
    ''2.  **Analyze Reports:** Create a level 2 heading "Report Analysis Summary" (translated to '' @ lang @
    ''). List **ONLY abnormal findings** in bullet points. Do not mention normal results.''\<close>

definition summary_first_rule :: string where
  \<open>summary_first_rule =
    ''- The 'prescriptionContent' value MUST start with the 'Report Analysis Summary' section.''\<close>

definition heading_per_treatment_rule :: \<open>string \<Rightarrow> string\<close> where
  \<open>heading_per_treatment_rule lang =
    ''- The 'prescriptionContent' value MUST contain a level 2 heading for each treatment type (e.g., "Homeopathy Prescription"), translated to '' @ lang @ ''.''\<close>

definition advice_rule :: string where
  \<open>advice_rule = ''- The 'advice' value MUST contain the 'General Advice' section.''\<close>

definition general_advice_step :: \<open>string \<Rightarrow> string\<close> where
  \<open>general_advice_step lang =
    ''.  **Provide General Advice:** Create a final section with a level 2 heading "General Advice" (translated to '' @ lang @
    ''). Provide a bulleted list of health advice and precautions.''\<close>

definition report_task :: \<open>string \<Rightarrow> string list \<Rightarrow> string\<close> where
  \<open>report_task lang selected =
    ''\<newline>'' @
    ''      **Task:**\<newline>'' @
    ''      Based on the provided information and reports, perform these tasks in '' @ lang @ '':\<newline>'' @
    ''      1.  **Create Illness Title:** Create a short title for the issue (max 5 words).\<newline>'' @
    ''      '' @ analyze_reports_step lang @ ''\<newline>'' @
    ''      3.  **Provide Treatment Opinion:** Provide plans for the selected methodologies: **'' @
    join '', '' selected @
    ''**. Base these on report findings and user comments, following all rules.\<newline>'' @
    ''      4'' @ general_advice_step lang @ ''\<newline>'' @
    ''\<newline>'' @
    ''      **Response Structure:**\<newline>'' @
    ''      '' @ summary_first_rule @ ''\<newline>'' @
    ''      '' @ advice_rule @ ''\<newline>'' @
    ''      ''\<close>

definition text_task :: \<open>string \<Rightarrow> string list \<Rightarrow> string\<close> where
  \<open>text_task lang selected =
    ''\<newline>'' @
    ''      **Task:**\<newline>'' @
    ''      Based on the provided information, perform these tasks in '' @ lang @ '':\<newline>'' @
    ''      1.  **Create Illness Title:** Create a short title for the illness (max 4 words).\<newline>'' @
    ''      2.  **Provide Treatment Plans:** Provide plans for the selected methodologies: **'' @
    join '', '' selected @
    ''**. Follow all rules.\<newline>'' @
    ''      3'' @ general_advice_step lang @ ''\<newline>'' @
    ''\<newline>'' @
    ''      **Response Structure:**\<newline>'' @
    ''      '' @ heading_per_treatment_rule lang @ ''\<newline>'' @
    ''      '' @ advice_rule @ ''\<newline>'' @
    ''      ''\<close>

text \<open>The template literal \<open>prompt\<close>, with \<open>hasFiles\<close> as the builder computes it.\<close>

definition prompt_text :: \<open>PatientInfo \<Rightarrow> string \<Rightarrow> string list \<Rightarrow> bool \<Rightarrow> string\<close> where
  \<open>prompt_text p illnessDescription selected hasFiles =
    prompt_rules (language p) selected @
    prompt_patient p @
    ''\<newline>'' @
    ''    '' @ prompt_description hasFiles illnessDescription @ ''\<newline>'' @
    ''    \<newline>'' @
    ''    '' @ (if hasFiles then report_task (language p) selected else text_task (language p) selected) @
    ''\<newline>'' @
    ''    ''\<close>

section \<open>\<open>JSON.parse\<close>\<close>

text \<open>
  The built-in the service wrapper calls on the reply text, after the JSON grammar
  (ECMA-404): a scanner that reads the text one character at a time, and a pushdown
  recogniser over its tokens. Both are total; \<open>None\<close> is the \<open>SyntaxError\<close>.
\<close>

datatype token =
    TLBrace | TRBrace | TLBrack | TRBrack | TColon | TComma
  | TString string | TNumber string | TTrue | TFalse | TNull

definition is_digit :: \<open>char \<Rightarrow> bool\<close> where
  \<open>is_digit c \<longleftrightarrow> 48 \<le> (of_char c :: nat) \<and> (of_char c :: nat) \<le> 57\<close>

definition is_json_space :: \<open>char \<Rightarrow> bool\<close> where
  \<open>is_json_space c \<longleftrightarrow> c = CHR '' '' \<or> c = CHR 0x09 \<or> c = CHR 0x0A \<or> c = CHR 0x0D\<close>

definition hex_val :: \<open>char \<Rightarrow> nat option\<close> where
  \<open>hex_val c =
    (let n = (of_char c :: nat) in
     if 48 \<le> n \<and> n \<le> 57 then Some (n - 48)
     else if 65 \<le> n \<and> n \<le> 70 then Some (n - 55)
     else if 97 \<le> n \<and> n \<le> 102 then Some (n - 87)
     else None)\<close>

text \<open>
  The bytes of one UTF-16 code unit, as UTF-8 writes a code point of that value. A
  surrogate on its own takes three bytes this way; a high surrogate followed by a low one
  is one code point above U+FFFF, which UTF-8 writes in four bytes, so whenever a unit
  or a byte is added to a string, a pair of surrogates at its end is merged.
\<close>

definition utf8_bytes :: \<open>nat \<Rightarrow> string\<close> where
  \<open>utf8_bytes n =
    (if n < 0x80 then [char_of n]
     else if n < 0x800 then [char_of (0xC0 + n div 64), char_of (0x80 + n mod 64)]
     else [char_of (0xE0 + n div 4096), char_of (0x80 + (n div 64) mod 64), char_of (0x80 + n mod 64)])\<close>

definition utf8_bytes4 :: \<open>nat \<Rightarrow> string\<close> where
  \<open>utf8_bytes4 n =
    [char_of (0xF0 + n div 262144), char_of (0x80 + (n div 4096) mod 64),
     char_of (0x80 + (n div 64) mod 64), char_of (0x80 + n mod 64)]\<close>

definition in_range :: \<open>nat \<Rightarrow> char \<Rightarrow> nat \<Rightarrow> bool\<close> where
  \<open>in_range lo c hi \<longleftrightarrow> lo \<le> (of_char c :: nat) \<and> (of_char c :: nat) \<le> hi\<close>

text \<open>
  The argument is a string with its last byte first. The three bytes of a high surrogate
  are \<open>ED\<close>, \<open>A0\<close> to \<open>AF\<close>, \<open>80\<close> to \<open>BF\<close>; those of a low one are \<open>ED\<close>, \<open>B0\<close> to \<open>BF\<close>,
  \<open>80\<close> to \<open>BF\<close>.
\<close>

fun merge_surrogates :: \<open>string \<Rightarrow> string\<close> where
  \<open>merge_surrogates (l3 # l2 # l1 # h3 # h2 # h1 # acc) =
    (if h1 = CHR 0xED \<and> in_range 0xA0 h2 0xAF \<and> in_range 0x80 h3 0xBF \<and>
        l1 = CHR 0xED \<and> in_range 0xB0 l2 0xBF \<and> in_range 0x80 l3 0xBF
     then rev (utf8_bytes4
            (0x10000 + (((of_char h2 :: nat) - 0xA0) * 64 + ((of_char h3 :: nat) - 0x80)) * 1024
                     + (((of_char l2 :: nat) - 0xB0) * 64 + ((of_char l3 :: nat) - 0x80)))) @ acc
     else l3 # l2 # l1 # h3 # h2 # h1 # acc)\<close>
| \<open>merge_surrogates acc = acc\<close>

text \<open>
  A number lexeme: an optional minus, \<open>0\<close> or a digit string without leading zero, an
  optional fraction, an optional exponent.
\<close>

definition valid_exponent :: \<open>string \<Rightarrow> bool\<close> where
  \<open>valid_exponent s =
    (case s of
       [] \<Rightarrow> True
     | e # r \<Rightarrow>
         (e = CHR ''e'' \<or> e = CHR ''E'') \<and>
         (let ds = (case r of [] \<Rightarrow> [] | g # r' \<Rightarrow> if g = CHR ''+'' \<or> g = CHR ''-'' then r' else r)
          in ds \<noteq> [] \<and> list_all is_digit ds))\<close>

definition valid_fraction :: \<open>string \<Rightarrow> bool\<close> where
  \<open>valid_fraction s =
    (case s of
       [] \<Rightarrow> True
     | p # r \<Rightarrow>
         if p = CHR ''.''
         then takeWhile is_digit r \<noteq> [] \<and> valid_exponent (dropWhile is_digit r)
         else valid_exponent s)\<close>

definition valid_integer :: \<open>string \<Rightarrow> bool\<close> where
  \<open>valid_integer s =
    (case s of
       [] \<Rightarrow> False
     | d # r \<Rightarrow>
         if d = CHR ''0'' then valid_fraction r
         else is_digit d \<and> valid_fraction (dropWhile is_digit r))\<close>

definition valid_number :: \<open>string \<Rightarrow> bool\<close> where
  \<open>valid_number s =
    (case s of
       [] \<Rightarrow> False
     | m # r \<Rightarrow> if m = CHR ''-'' then valid_integer r else valid_integer s)\<close>

definition is_number_char :: \<open>char \<Rightarrow> bool\<close> where
  \<open>is_number_char c \<longleftrightarrow>
     is_digit c \<or> c = CHR ''-'' \<or> c = CHR ''+'' \<or> c = CHR ''.'' \<or> c = CHR ''e'' \<or> c = CHR ''E''\<close>

text \<open>
  The scanner's state: between tokens; inside a string (the bytes read so far, last
  first); after a backslash; inside \<open>\u\<close> (the value and the number of the hex digits
  read); inside a number (its characters, last first); inside a literal name (the
  characters still expected, and the token it gives).
\<close>

datatype scan =
    Between
  | InString string
  | InEscape string
  | InUnicode nat nat string
  | InNumber string
  | InLiteral string token

definition scan_between :: \<open>char \<Rightarrow> token list \<Rightarrow> (scan \<times> token list) option\<close> where
  \<open>scan_between c toks =
    (if is_json_space c then Some (Between, toks)
     else if c = CHR ''{'' then Some (Between, TLBrace # toks)
     else if c = CHR ''}'' then Some (Between, TRBrace # toks)
     else if c = CHR ''['' then Some (Between, TLBrack # toks)
     else if c = CHR '']'' then Some (Between, TRBrack # toks)
     else if c = CHR '':'' then Some (Between, TColon # toks)
     else if c = CHR '','' then Some (Between, TComma # toks)
     else if c = CHR 0x22 then Some (InString [], toks)
     else if c = CHR ''-'' \<or> is_digit c then Some (InNumber [c], toks)
     else if c = CHR ''t'' then Some (InLiteral ''rue'' TTrue, toks)
     else if c = CHR ''f'' then Some (InLiteral ''alse'' TFalse, toks)
     else if c = CHR ''n'' then Some (InLiteral ''ull'' TNull, toks)
     else None)\<close>

definition scan_escape :: \<open>char \<Rightarrow> string \<Rightarrow> scan option\<close> where
  \<open>scan_escape c acc =
    (if c = CHR 0x22 \<or> c = CHR 0x5C \<or> c = CHR ''/'' then Some (InString (c # acc))
     else if c = CHR ''b'' then Some (InString (CHR 0x08 # acc))
     else if c = CHR ''f'' then Some (InString (CHR 0x0C # acc))
     else if c = CHR ''n'' then Some (InString (CHR 0x0A # acc))
     else if c = CHR ''r'' then Some (InString (CHR 0x0D # acc))
     else if c = CHR ''t'' then Some (InString (CHR 0x09 # acc))
     else if c = CHR ''u'' then Some (InUnicode 0 0 acc)
     else None)\<close>

fun scan_step :: \<open>scan \<Rightarrow> token list \<Rightarrow> char \<Rightarrow> (scan \<times> token list) option\<close> where
  \<open>scan_step Between toks c = scan_between c toks\<close>
| \<open>scan_step (InString acc) toks c =
    (if c = CHR 0x22 then Some (Between, TString (rev acc) # toks)
     else if c = CHR 0x5C then Some (InEscape acc, toks)
     else if (of_char c :: nat) < 0x20 then None
     else Some (InString (merge_surrogates (c # acc)), toks))\<close>
| \<open>scan_step (InEscape acc) toks c =
    (case scan_escape c acc of None \<Rightarrow> None | Some s \<Rightarrow> Some (s, toks))\<close>
| \<open>scan_step (InUnicode n k acc) toks c =
    (case hex_val c of
       None \<Rightarrow> None
     | Some h \<Rightarrow>
         if k = 3 then Some (InString (merge_surrogates (rev (utf8_bytes (16 * n + h)) @ acc)), toks)
         else Some (InUnicode (16 * n + h) (Suc k) acc, toks))\<close>
| \<open>scan_step (InNumber acc) toks c =
    (if is_number_char c then Some (InNumber (c # acc), toks)
     else if valid_number (rev acc) then scan_between c (TNumber (rev acc) # toks)
     else None)\<close>
| \<open>scan_step (InLiteral expected tok) toks c =
    (case expected of
       [] \<Rightarrow> None
     | e # es \<Rightarrow>
         if c \<noteq> e then None
         else if es = [] then Some (Between, tok # toks)
         else Some (InLiteral es tok, toks))\<close>

fun scan_end :: \<open>scan \<Rightarrow> token list \<Rightarrow> token list option\<close> where
  \<open>scan_end Between toks = Some (rev toks)\<close>
| \<open>scan_end (InNumber acc) toks =
    (if valid_number (rev acc) then Some (rev (TNumber (rev acc) # toks)) else None)\<close>
| \<open>scan_end _ toks = None\<close>

fun scan_run :: \<open>scan \<Rightarrow> token list \<Rightarrow> string \<Rightarrow> token list option\<close> where
  \<open>scan_run s toks [] = scan_end s toks\<close>
| \<open>scan_run s toks (c # cs) =
    (case scan_step s toks c of None \<Rightarrow> None | Some (s', toks') \<Rightarrow> scan_run s' toks' cs)\<close>

text \<open>
  The recogniser. A frame is an open container waiting for a value: an array with its
  elements so far, or an object with its members so far and the key just read (last
  first in both).
\<close>

datatype frame = InArr \<open>json list\<close> | InObj \<open>(string \<times> json) list\<close> string

datatype expect =
    ExpValue \<open>frame list\<close>
  | ArrStart \<open>frame list\<close>
  | ArrNext \<open>json list\<close> \<open>frame list\<close>
  | ObjStart \<open>frame list\<close>
  | ObjKey \<open>(string \<times> json) list\<close> \<open>frame list\<close>
  | ObjColon \<open>(string \<times> json) list\<close> string \<open>frame list\<close>
  | ObjNext \<open>(string \<times> json) list\<close> \<open>frame list\<close>
  | Done json

fun deliver :: \<open>json \<Rightarrow> frame list \<Rightarrow> expect\<close> where
  \<open>deliver v [] = Done v\<close>
| \<open>deliver v (InArr items # fs) = ArrNext (v # items) fs\<close>
| \<open>deliver v (InObj members k # fs) = ObjNext ((k, v) # members) fs\<close>

fun parse_value :: \<open>frame list \<Rightarrow> token \<Rightarrow> expect option\<close> where
  \<open>parse_value fs (TString s) = Some (deliver (JStr s) fs)\<close>
| \<open>parse_value fs (TNumber n) = Some (deliver (JNum n) fs)\<close>
| \<open>parse_value fs TTrue = Some (deliver (JBool True) fs)\<close>
| \<open>parse_value fs TFalse = Some (deliver (JBool False) fs)\<close>
| \<open>parse_value fs TNull = Some (deliver JNull fs)\<close>
| \<open>parse_value fs TLBrack = Some (ArrStart fs)\<close>
| \<open>parse_value fs TLBrace = Some (ObjStart fs)\<close>
| \<open>parse_value fs _ = None\<close>

fun parse_step :: \<open>expect \<Rightarrow> token \<Rightarrow> expect option\<close> where
  \<open>parse_step (ExpValue fs) t = parse_value fs t\<close>
| \<open>parse_step (ArrStart fs) t =
    (if t = TRBrack then Some (deliver (JArr []) fs) else parse_value (InArr [] # fs) t)\<close>
| \<open>parse_step (ArrNext items fs) t =
    (if t = TComma then Some (ExpValue (InArr items # fs))
     else if t = TRBrack then Some (deliver (JArr (rev items)) fs)
     else None)\<close>
| \<open>parse_step (ObjStart fs) t =
    (case t of
       TRBrace \<Rightarrow> Some (deliver (JObj []) fs)
     | TString k \<Rightarrow> Some (ObjColon [] k fs)
     | _ \<Rightarrow> None)\<close>
| \<open>parse_step (ObjKey members fs) t =
    (case t of TString k \<Rightarrow> Some (ObjColon members k fs) | _ \<Rightarrow> None)\<close>
| \<open>parse_step (ObjColon members k fs) t =
    (if t = TColon then Some (ExpValue (InObj members k # fs)) else None)\<close>
| \<open>parse_step (ObjNext members fs) t =
    (if t = TComma then Some (ObjKey members fs)
     else if t = TRBrace then Some (deliver (JObj (rev members)) fs)
     else None)\<close>
| \<open>parse_step (Done v) t = None\<close>

fun parse_run :: \<open>expect \<Rightarrow> token list \<Rightarrow> json option\<close> where
  \<open>parse_run e [] = (case e of Done v \<Rightarrow> Some v | _ \<Rightarrow> None)\<close>
| \<open>parse_run e (t # ts) =
    (case parse_step e t of None \<Rightarrow> None | Some e' \<Rightarrow> parse_run e' ts)\<close>

definition JSON_parse :: \<open>string \<Rightarrow> json option\<close> where
  \<open>JSON_parse text =
    (case scan_run Between [] text of
       None \<Rightarrow> None
     | Some toks \<Rightarrow> parse_run (ExpValue []) toks)\<close>

text \<open>
  A property read \<open>v.k\<close> on a parsed object, for a name no prototype defines: the last
  member of that name, or \<open>None\<close> for \<open>undefined\<close>.
\<close>

fun field :: \<open>json \<Rightarrow> string \<Rightarrow> json option\<close> where
  \<open>field (JObj members) k = map_of (rev members) k\<close>
| \<open>field _ k = None\<close>

section \<open>What the component renders\<close>

text \<open>
  JavaScript truthiness of a parsed value. A number is falsy when its double is zero:
  when its digits are all zero, or when the literal is so small that it rounds to zero
  (at most \<open>2 ^ -1075\<close>, the midpoint below the least subnormal double).
\<close>

definition digits_val :: \<open>string \<Rightarrow> int\<close> where
  \<open>digits_val ds = foldl (\<lambda>n c. 10 * n + (of_char c - 48)) 0 ds\<close>

definition is_exp_mark :: \<open>char \<Rightarrow> bool\<close> where
  \<open>is_exp_mark c \<longleftrightarrow> c = CHR ''e'' \<or> c = CHR ''E''\<close>

definition num_is_zero :: \<open>string \<Rightarrow> bool\<close> where
  \<open>num_is_zero lexeme =
    (let s = (case lexeme of [] \<Rightarrow> [] | c # r \<Rightarrow> if c = CHR ''-'' then r else lexeme);
         mantissa = takeWhile (\<lambda>c. \<not> is_exp_mark c) s;
         ex = drop 1 (dropWhile (\<lambda>c. \<not> is_exp_mark c) s);
         int_part = takeWhile (\<lambda>c. c \<noteq> CHR ''.'') mantissa;
         frac_part = drop 1 (dropWhile (\<lambda>c. c \<noteq> CHR ''.'') mantissa);
         m = digits_val (int_part @ frac_part);
         e10 = (case ex of
                  [] \<Rightarrow> 0
                | g # r \<Rightarrow>
                    if g = CHR ''-'' then - digits_val r
                    else if g = CHR ''+'' then digits_val r
                    else digits_val ex) - int (length frac_part)
     in m = 0 \<or> (e10 < 0 \<and> m * 2 ^ 1075 \<le> 10 ^ nat (- e10)))\<close>

fun truthy :: \<open>json \<Rightarrow> bool\<close> where
  \<open>truthy JNull = False\<close>
| \<open>truthy (JBool b) = b\<close>
| \<open>truthy (JNum n) = (\<not> num_is_zero n)\<close>
| \<open>truthy (JStr s) = (s \<noteq> [])\<close>
| \<open>truthy (JArr xs) = True\<close>
| \<open>truthy (JObj members) = True\<close>

fun message_truthy :: \<open>js_message \<Rightarrow> bool\<close> where
  \<open>message_truthy (Text s) = (s \<noteq> [])\<close>
| \<open>message_truthy _ = False\<close>

text \<open>
  The controller's state, read off the JSX: the loading overlay while \<open>isLoading\<close>; the
  prescription view when \<open>prescription\<close> is truthy; otherwise the form, with the alert
  when \<open>error\<close> is truthy.
\<close>

datatype phase = Editing | Submitting | Result | Error

definition controller_state :: \<open>app_state \<Rightarrow> phase\<close> where
  \<open>controller_state st =
    (if isLoading st then Submitting
     else if truthy (prescription st) then Result
     else if message_truthy (error st) then Error
     else Editing)\<close>

section \<open>Submission\<close>

text \<open>
  \<open>s.trim() === ''\<close>: the text consists of white space and line terminators only (the
  ASCII ones, and the UTF-8 forms of U+00A0, U+1680, U+2000 to U+200A, U+2028, U+2029,
  U+202F, U+205F, U+3000 and U+FEFF).
\<close>

definition ascii_space :: \<open>char \<Rightarrow> bool\<close> where
  \<open>ascii_space c \<longleftrightarrow>
     c = CHR 0x09 \<or> c = CHR 0x0A \<or> c = CHR 0x0B \<or> c = CHR 0x0C \<or> c = CHR 0x0D \<or> c = CHR 0x20\<close>

definition space3 :: \<open>char \<Rightarrow> char \<Rightarrow> char \<Rightarrow> bool\<close> where
  \<open>space3 a b c \<longleftrightarrow>
     (a = CHR 0xE1 \<and> b = CHR 0x9A \<and> c = CHR 0x80) \<or>
     (a = CHR 0xE2 \<and> b = CHR 0x80 \<and>
        ((0x80 \<le> (of_char c :: nat) \<and> (of_char c :: nat) \<le> 0x8A) \<or>
         c = CHR 0xA8 \<or> c = CHR 0xA9 \<or> c = CHR 0xAF)) \<or>
     (a = CHR 0xE2 \<and> b = CHR 0x81 \<and> c = CHR 0x9F) \<or>
     (a = CHR 0xE3 \<and> b = CHR 0x80 \<and> c = CHR 0x80) \<or>
     (a = CHR 0xEF \<and> b = CHR 0xBB \<and> c = CHR 0xBF)\<close>

fun trim_is_empty :: \<open>string \<Rightarrow> bool\<close> where
  \<open>trim_is_empty [] = True\<close>
| \<open>trim_is_empty [a] = ascii_space a\<close>
| \<open>trim_is_empty [a, b] =
    (if ascii_space a then trim_is_empty [b] else a = CHR 0xC2 \<and> b = CHR 0xA0)\<close>
| \<open>trim_is_empty (a # b # c # r) =
    (if ascii_space a then trim_is_empty (b # c # r)
     else if a = CHR 0xC2 \<and> b = CHR 0xA0 then trim_is_empty (c # r)
     else space3 a b c \<and> trim_is_empty r)\<close>

text \<open>
  What a promise rejects with: an \<open>Error\<close> object with its message, or the event that
  \<open>FileReader\<close> hands to \<open>onerror\<close> (\<open>fileToPart\<close> passes it on to \<open>reject\<close> as it is), a
  DOM \<open>ProgressEvent\<close>, which has no \<open>message\<close> property: reading \<open>err.message\<close> on it
  gives \<open>undefined\<close>.
\<close>

datatype thrown = JsError string | ProgressEvent

fun message_of :: \<open>thrown \<Rightarrow> js_message\<close> where
  \<open>message_of (JsError m) = Text m\<close>
| \<open>message_of ProgressEvent = Undefined\<close>

text \<open>\<open>String.prototype.split\<close> with a one-character separator.\<close>

fun split :: \<open>char \<Rightarrow> string \<Rightarrow> string list\<close> where
  \<open>split sep [] = [[]]\<close>
| \<open>split sep (c # cs) =
    (if c = sep then [] # split sep cs
     else (case split sep cs of [] \<Rightarrow> [[c]] | w # ws \<Rightarrow> (c # w) # ws))\<close>

fun index :: \<open>'a list \<Rightarrow> nat \<Rightarrow> 'a option\<close> where
  \<open>index [] i = None\<close>
| \<open>index (x # xs) 0 = Some x\<close>
| \<open>index (x # xs) (Suc i) = index xs i\<close>

text \<open>
  The two collaborators outside the repository are parameters. \<open>reader\<close> is the browser's
  \<open>FileReader.readAsDataURL\<close>: \<open>Some\<close> of the data URL when \<open>onload\<close> fires, \<open>None\<close> when
  \<open>onerror\<close> fires. \<open>service\<close> is \<open>ai.models.generateContent\<close>, given the prompt and the file
  parts: \<open>None\<close> when the call throws or rejects, \<open>Some\<close> of \<open>response.text\<close> otherwise (a
  missing text reaches \<open>JSON.parse\<close> as the string \<open>undefined\<close>).
\<close>

type_synonym reader = \<open>File \<Rightarrow> string option\<close>

type_synonym service = \<open>string \<Rightarrow> FilePart list \<Rightarrow> string option\<close>

definition fileToPart :: \<open>reader \<Rightarrow> File \<Rightarrow> thrown + FilePart\<close> where
  \<open>fileToPart reader file =
    (case reader file of
       None \<Rightarrow> Inl ProgressEvent
     | Some url \<Rightarrow> Inr \<lparr>mimeType = file_type file, data = index (split CHR '','' url) 1\<rparr>)\<close>

text \<open>
  \<open>Promise.all\<close>: the list of results, or the rejection of a promise that rejected (here
  the first in list order; every rejection of \<open>fileToPart\<close> carries the same value).
\<close>

fun promise_all :: \<open>(thrown + 'a) list \<Rightarrow> thrown + 'a list\<close> where
  \<open>promise_all [] = Inr []\<close>
| \<open>promise_all (Inl e # ps) = Inl e\<close>
| \<open>promise_all (Inr x # ps) =
    (case promise_all ps of Inl e \<Rightarrow> Inl e | Inr xs \<Rightarrow> Inr (x # xs))\<close>

text \<open>The calls that leave the component, in the order they are made.\<close>

datatype effect = ReadFile File | GenerateContent string \<open>FilePart list\<close>

definition failure_message :: string where
  \<open>failure_message = ''Failed to get a response from the AI. Please try again.''\<close>

definition generatePrescription ::
  \<open>service \<Rightarrow> PatientInfo \<Rightarrow> string \<Rightarrow> string list \<Rightarrow> FilePart list \<Rightarrow> (thrown + json) \<times> effect list\<close> where
  \<open>generatePrescription service p illnessDescription selected files =
    (let hasFiles = (length files > 0);
         prompt = prompt_text p illnessDescription selected hasFiles
     in ((case service prompt files of
            None \<Rightarrow> Inl (JsError failure_message)
          | Some text \<Rightarrow>
              (case JSON_parse text of
                 None \<Rightarrow> Inl (JsError failure_message)
               | Some v \<Rightarrow> Inr v)),
         [GenerateContent prompt files]))\<close>

definition validation_message :: string where
  \<open>validation_message =
    ''Please fill all required fields, describe your symptoms or upload a report, and select at least one treatment type.''\<close>

definition descriptionForApi :: \<open>app_state \<Rightarrow> string\<close> where
  \<open>descriptionForApi st =
    (if activeTab st = TabText then symptomDescription st else reportComments st)\<close>

definition isInputMissing :: \<open>app_state \<Rightarrow> bool\<close> where
  \<open>isInputMissing st \<longleftrightarrow>
     (activeTab st = TabText \<and> trim_is_empty (symptomDescription st)) \<or>
     (activeTab st = TabUpload \<and> length (uploadedFiles st) = 0)\<close>

definition submit_rejected :: \<open>app_state \<Rightarrow> bool\<close> where
  \<open>submit_rejected st \<longleftrightarrow>
     name (patientInfo st) = '''' \<or> age (patientInfo st) = '''' \<or> district (patientInfo st) = '''' \<or>
     religion (patientInfo st) = '''' \<or> language (patientInfo st) = '''' \<or>
     isInputMissing st \<or> length (selectedTreatments st) = 0\<close>

definition handleSubmit :: \<open>reader \<Rightarrow> service \<Rightarrow> app_state \<Rightarrow> app_state \<times> effect list\<close> where
  \<open>handleSubmit reader service st =
    (if submit_rejected st then (st\<lparr>error := Text validation_message\<rparr>, [])
     else
       let st1 = st\<lparr>error := Null, isLoading := True, prescription := JNull\<rparr>;
           reads = map ReadFile (uploadedFiles st)
       in (case promise_all (map (fileToPart reader) (uploadedFiles st)) of
             Inl err \<Rightarrow> (st1\<lparr>error := message_of err, isLoading := False\<rparr>, reads)
           | Inr fileParts \<Rightarrow>
               (case generatePrescription service (patientInfo st) (descriptionForApi st)
                       (selectedTreatments st) fileParts of
                  (Inl err, calls) \<Rightarrow> (st1\<lparr>error := message_of err, isLoading := False\<rparr>, reads @ calls)
                | (Inr result, calls) \<Rightarrow> (st1\<lparr>prescription := result, isLoading := False\<rparr>, reads @ calls))))\<close>

section \<open>Attachments\<close>






text \<open>
  Claim C10. For every accepted list and every file name, removing by that name changes
  nothing but the accepted list, which becomes the old list without the attachments of
  that name: no attachment of that name is left (all of them go at once), and the
  attachments of any other name are the same as before, in the same order.
\<close>

theorem removeFile_by_name:
  \<open>removeFile fileName st =
     st\<lparr>uploadedFiles := filter (\<lambda>f. file_name f \<noteq> fileName) (uploadedFiles st)\<rparr>
   \<and> (\<forall>f \<in> set (uploadedFiles (removeFile fileName st)). file_name f \<noteq> fileName)
   \<and> filter (\<lambda>f. file_name f \<noteq> fileName) (uploadedFiles (removeFile fileName st)) =
       filter (\<lambda>f. file_name f \<noteq> fileName) (uploadedFiles st)
   \<and> subseq (uploadedFiles (removeFile fileName st)) (uploadedFiles st)\<close>
  by (simp add: removeFile_def)

text \<open>Two attachments share the name \<open>scan.png\<close>; one removal takes both, the others stay in order.\<close>

theorem removeFile_by_name_witness:
  \<open>uploadedFiles (removeFile ''scan.png''
      (initial_state\<lparr>uploadedFiles :=
         [\<lparr>file_name = ''scan.png'', file_type = ''image/png'', file_size = 100\<rparr>,
          \<lparr>file_name = ''labs.pdf'', file_type = ''application/pdf'', file_size = 2000\<rparr>,
          \<lparr>file_name = ''scan.png'', file_type = ''image/jpeg'', file_size = 300\<rparr>,
          \<lparr>file_name = ''xray.jpg'', file_type = ''image/jpeg'', file_size = 5\<rparr>]\<rparr>)) =
     [\<lparr>file_name = ''labs.pdf'', file_type = ''application/pdf'', file_size = 2000\<rparr>,
      \<lparr>file_name = ''xray.jpg'', file_type = ''image/jpeg'', file_size = 5\<rparr>]\<close>
  using removeFile_by_name [of \<open>''scan.png''\<close> \<open>initial_state\<lparr>uploadedFiles :=
         [\<lparr>file_name = ''scan.png'', file_type = ''image/png'', file_size = 100\<rparr>,
          \<lparr>file_name = ''labs.pdf'', file_type = ''application/pdf'', file_size = 2000\<rparr>,
          \<lparr>file_name = ''scan.png'', file_type = ''image/jpeg'', file_size = 300\<rparr>,
          \<lparr>file_name = ''xray.jpg'', file_type = ''image/jpeg'', file_size = 5\<rparr>]\<rparr>\<close>]
  by (simp add: initial_state_def)

section \<open>Religion and the treatment selection\<close>

text \<open>
  Claim C4. For every selection, when the religion field is changed away from a religion
  that implies a treatment label, the selection afterwards is the old one without that
  label, in the same order: the implied label is no longer selected, every other selected
  label still is, and the religion field holds the new value.
\<close>

theorem religion_change_deselects_implied:
  assumes \<open>ReligiousTreatments (religion (patientInfo st)) = Some implied\<close>
  shows \<open>selectedTreatments (handleInputChange ''religion'' v st) =
           filter (\<lambda>t. t \<noteq> implied) (selectedTreatments st)
         \<and> implied \<notin> set (selectedTreatments (handleInputChange ''religion'' v st))
         \<and> (\<forall>t \<in> set (selectedTreatments st).
               t \<noteq> implied \<longrightarrow> t \<in> set (selectedTreatments (handleInputChange ''religion'' v st)))
         \<and> patientInfo (handleInputChange ''religion'' v st) = (patientInfo st)\<lparr>religion := v\<rparr>\<close>
  using assms by (simp add: handleInputChange_def set_delete_def set_field_def)

text \<open>
  From Islam to Hinduism, with two modalities, the Islam label and a label of another
  religion selected: only the Islam label goes.
\<close>

theorem religion_change_deselects_implied_witness:
  \<open>ReligiousTreatments ''Islam'' = Some ''Quran & Asma-ul-Husna''
   \<and> selectedTreatments (handleInputChange ''religion'' ''Hinduism''
        (initial_state\<lparr>patientInfo := default_patientInfo\<lparr>religion := ''Islam''\<rparr>,
           selectedTreatments := [Homeopathy, ''Quran & Asma-ul-Husna'', ''Ayurveda & Mantras'', Hikmat]\<rparr>)) =
       [Homeopathy, ''Ayurveda & Mantras'', Hikmat]\<close>
proof -
  have h: \<open>ReligiousTreatments ''Islam'' = Some ''Quran & Asma-ul-Husna''\<close>
    by (simp add: ReligiousTreatments_def ReligiousTreatments_table_def)
  show ?thesis
    using h religion_change_deselects_implied
      [of \<open>initial_state\<lparr>patientInfo := default_patientInfo\<lparr>religion := ''Islam''\<rparr>,
           selectedTreatments := [Homeopathy, ''Quran & Asma-ul-Husna'', ''Ayurveda & Mantras'', Hikmat]\<rparr>\<close>
          \<open>''Quran & Asma-ul-Husna''\<close> \<open>''Hinduism''\<close>]
    by (simp add: initial_state_def default_patientInfo_def Homeopathy_def Hikmat_def)
qed

section \<open>Reset\<close>

text \<open>
  Claim C8, as stated, asks for every field to be empty after a reset. The language field
  is not: after a reset of a form that holds a result for an Urdu-speaking patient, the
  language is the default \<open>English\<close>.
\<close>

theorem resetForm_language_counterexample:
  \<open>language (patientInfo (resetForm
      (initial_state\<lparr>patientInfo := \<lparr>name = ''Aisha'', age = ''29'', district = ''Lahore'', cell = '''',
                                      religion = ''Islam'', language = ''Urdu''\<rparr>,
         prescription := JObj [(''illnessTitle'', JStr ''Flu''), (''prescriptionContent'', JStr ''Rest''),
                               (''advice'', JStr ''Fluids'')]\<rparr>))) \<noteq> ''''\<close>
  by (simp add: resetForm_def default_patientInfo_def)

text \<open>
  Claim C8, amended. For every form state, the reset action puts every state variable of
  the form back to its initial value: the patient's fields, both text inputs, the
  selection and the attachments empty, the language \<open>English\<close>, no error, no result, the
  text tab active. Outside a running submission the controller is then in the Editing state.
\<close>

theorem resetForm_restores_defaults:
  \<open>resetForm st = initial_state\<lparr>isLoading := isLoading st, isDragging := isDragging st\<rparr>
   \<and> patientInfo (resetForm st) =
       \<lparr>name = '''', age = '''', district = '''', cell = '''', religion = '''', language = ''English''\<rparr>
   \<and> symptomDescription (resetForm st) = '''' \<and> reportComments (resetForm st) = ''''
   \<and> selectedTreatments (resetForm st) = [] \<and> uploadedFiles (resetForm st) = []
   \<and> error (resetForm st) = Null \<and> prescription (resetForm st) = JNull
   \<and> activeTab (resetForm st) = TabText
   \<and> (\<not> isLoading st \<longrightarrow> controller_state (resetForm st) = Editing)\<close>
  by (simp add: resetForm_def initial_state_def default_patientInfo_def controller_state_def)

text \<open>A form that shows a result is in the Editing state after the reset.\<close>

theorem resetForm_restores_defaults_witness:
  \<open>controller_state
     (initial_state\<lparr>prescription := JObj [(''illnessTitle'', JStr ''Flu'')],
        selectedTreatments := [Homeopathy]\<rparr>) = Result
   \<and> controller_state (resetForm
     (initial_state\<lparr>prescription := JObj [(''illnessTitle'', JStr ''Flu'')],
        selectedTreatments := [Homeopathy]\<rparr>)) = Editing\<close>
  using resetForm_restores_defaults
    [of \<open>initial_state\<lparr>prescription := JObj [(''illnessTitle'', JStr ''Flu'')],
        selectedTreatments := [Homeopathy]\<rparr>\<close>]
  by (simp add: initial_state_def controller_state_def)

section \<open>Properties of a submission\<close>

lemma handleSubmit_rejected:
  \<open>submit_rejected st \<Longrightarrow> handleSubmit reader service st = (st\<lparr>error := Text validation_message\<rparr>, [])\<close>
  by (simp add: handleSubmit_def)

lemma handleSubmit_read_failure:
  assumes \<open>\<not> submit_rejected st\<close>
    and \<open>promise_all (map (fileToPart reader) (uploadedFiles st)) = Inl err\<close>
  shows \<open>handleSubmit reader service st =
    (st\<lparr>error := message_of err, isLoading := False, prescription := JNull\<rparr>,
     map ReadFile (uploadedFiles st))\<close>
  using assms by (simp add: handleSubmit_def Let_def)

lemma handleSubmit_accepted:
  assumes \<open>\<not> submit_rejected st\<close>
    and \<open>promise_all (map (fileToPart reader) (uploadedFiles st)) = Inr parts\<close>
  shows \<open>handleSubmit reader service st =
    ((case service (prompt_text (patientInfo st) (descriptionForApi st) (selectedTreatments st) (parts \<noteq> [])) parts of
        None \<Rightarrow> st\<lparr>error := Text failure_message, isLoading := False, prescription := JNull\<rparr>
      | Some text \<Rightarrow>
          (case JSON_parse text of
             None \<Rightarrow> st\<lparr>error := Text failure_message, isLoading := False, prescription := JNull\<rparr>
           | Some v \<Rightarrow> st\<lparr>error := Null, isLoading := False, prescription := v\<rparr>)),
     map ReadFile (uploadedFiles st) @
     [GenerateContent (prompt_text (patientInfo st) (descriptionForApi st) (selectedTreatments st) (parts \<noteq> [])) parts])\<close>
  using assms by (simp add: handleSubmit_def generatePrescription_def Let_def split: option.splits)





lemma handleSubmit_keeps_form:
  \<open>patientInfo (fst (handleSubmit reader service st)) = patientInfo st
   \<and> symptomDescription (fst (handleSubmit reader service st)) = symptomDescription st
   \<and> reportComments (fst (handleSubmit reader service st)) = reportComments st
   \<and> selectedTreatments (fst (handleSubmit reader service st)) = selectedTreatments st
   \<and> uploadedFiles (fst (handleSubmit reader service st)) = uploadedFiles st
   \<and> activeTab (fst (handleSubmit reader service st)) = activeTab st\<close>
  by (simp add: handleSubmit_def generatePrescription_def Let_def split: option.splits sum.splits)

text \<open>
  Claim C2. For every form state in which a required field of the patient (name, age,
  district, religion, language) is empty, or no treatment is selected, or the input of
  the active mode is missing (empty symptom text in text mode, no accepted attachment in
  upload mode), submitting changes nothing but the error, which becomes the validation
  message (a non-empty text, so the alert is shown), and makes no call at all: no file is
  read and the service is not called.
\<close>

theorem incomplete_form_rejected:
  assumes \<open>name (patientInfo st) = '''' \<or> age (patientInfo st) = '''' \<or> district (patientInfo st) = '''' \<or>
           religion (patientInfo st) = '''' \<or> language (patientInfo st) = '''' \<or>
           selectedTreatments st = [] \<or>
           (activeTab st = TabText \<and> symptomDescription st = '''') \<or>
           (activeTab st = TabUpload \<and> uploadedFiles st = [])\<close>
  shows \<open>handleSubmit reader service st = (st\<lparr>error := Text validation_message\<rparr>, [])
         \<and> message_truthy (error (fst (handleSubmit reader service st)))\<close>
proof -
  from assms have \<open>submit_rejected st\<close>
    by (auto simp: submit_rejected_def isInputMissing_def)
  then show ?thesis
    by (simp add: handleSubmit_rejected validation_message_def)
qed

text \<open>A form that is complete but for the treatment selection, with a file waiting.\<close>

theorem incomplete_form_rejected_witness:
  \<open>handleSubmit (\<lambda>f. Some ''data:image/png;base64,AAAA'') (\<lambda>p fs. Some ''{}'')
     (initial_state\<lparr>patientInfo := \<lparr>name = ''Aisha'', age = ''29'', district = ''Lahore'', cell = '''',
                                     religion = ''Islam'', language = ''Urdu''\<rparr>,
        symptomDescription := ''fever and cough'',
        uploadedFiles := [\<lparr>file_name = ''a.png'', file_type = ''image/png'', file_size = 100\<rparr>]\<rparr>) =
   (initial_state\<lparr>patientInfo := \<lparr>name = ''Aisha'', age = ''29'', district = ''Lahore'', cell = '''',
                                     religion = ''Islam'', language = ''Urdu''\<rparr>,
        symptomDescription := ''fever and cough'',
        uploadedFiles := [\<lparr>file_name = ''a.png'', file_type = ''image/png'', file_size = 100\<rparr>],
        error := Text validation_message\<rparr>, [])\<close>
  using incomplete_form_rejected
    [of \<open>initial_state\<lparr>patientInfo := \<lparr>name = ''Aisha'', age = ''29'', district = ''Lahore'', cell = '''',
                                     religion = ''Islam'', language = ''Urdu''\<rparr>,
        symptomDescription := ''fever and cough'',
        uploadedFiles := [\<lparr>file_name = ''a.png'', file_type = ''image/png'', file_size = 100\<rparr>]\<rparr>\<close>
        \<open>\<lambda>f. Some ''data:image/png;base64,AAAA''\<close> \<open>\<lambda>p fs. Some ''{}''\<close>]
  by (simp add: initial_state_def)



text \<open>
  Claim C1, as stated, has a reply that omits a required field fail. A reply with the
  title alone does not: it is stored as the result, no error is set, and the controller
  shows the result.
\<close>

theorem missing_fields_accepted_counterexample:
  \<open>prescription (fst (handleSubmit (\<lambda>f. None) (\<lambda>p fs. Some ''{"illnessTitle":"Flu"}'')
       (initial_state\<lparr>patientInfo := \<lparr>name = ''Aisha'', age = ''29'', district = ''Lahore'', cell = '''',
                                       religion = ''Islam'', language = ''Urdu''\<rparr>,
          symptomDescription := ''fever and cough'',
          selectedTreatments := [''Homeopathy'']\<rparr>))) = JObj [(''illnessTitle'', JStr ''Flu'')]
   \<and> error (fst (handleSubmit (\<lambda>f. None) (\<lambda>p fs. Some ''{"illnessTitle":"Flu"}'')
       (initial_state\<lparr>patientInfo := \<lparr>name = ''Aisha'', age = ''29'', district = ''Lahore'', cell = '''',
                                       religion = ''Islam'', language = ''Urdu''\<rparr>,
          symptomDescription := ''fever and cough'',
          selectedTreatments := [''Homeopathy'']\<rparr>))) = Null
   \<and> controller_state (fst (handleSubmit (\<lambda>f. None) (\<lambda>p fs. Some ''{"illnessTitle":"Flu"}'')
       (initial_state\<lparr>patientInfo := \<lparr>name = ''Aisha'', age = ''29'', district = ''Lahore'', cell = '''',
                                       religion = ''Islam'', language = ''Urdu''\<rparr>,
          symptomDescription := ''fever and cough'',
          selectedTreatments := [''Homeopathy'']\<rparr>))) = Result\<close>
proof -
  let ?st = \<open>initial_state\<lparr>patientInfo := \<lparr>name = ''Aisha'', age = ''29'', district = ''Lahore'', cell = '''',
                                       religion = ''Islam'', language = ''Urdu''\<rparr>,
          symptomDescription := ''fever and cough'',
          selectedTreatments := [''Homeopathy'']\<rparr>\<close>
  have v: \<open>\<not> submit_rejected ?st\<close>
    by (simp add: submit_rejected_def isInputMissing_def initial_state_def ascii_space_def space3_def)
  have r: \<open>promise_all (map (fileToPart (\<lambda>f. None)) (uploadedFiles ?st)) = Inr []\<close>
    by (simp add: initial_state_def)
  have j: \<open>JSON_parse ''{"illnessTitle":"Flu"}'' = Some (JObj [(''illnessTitle'', JStr ''Flu'')])\<close>
    by code_simp
  show ?thesis
    using handleSubmit_accepted [OF v r, of \<open>\<lambda>p fs. Some ''{"illnessTitle":"Flu"}''\<close>]
    by (simp add: j controller_state_def)
qed

text \<open>
  Claim C1, amended. For every submission that reaches the service and every reply text:
  when the text is not well-formed JSON, the error becomes the generic failure message,
  no result is set and the controller is in the Error state; when it is well-formed, the
  parsed value is stored as the result as it is, with no check of its fields; so when it
  has the three fields as strings, the controller shows the result and the three fields
  read back verbatim.
\<close>

theorem reply_stored_as_parsed:
  assumes \<open>\<not> submit_rejected st\<close>
    and \<open>promise_all (map (fileToPart reader) (uploadedFiles st)) = Inr parts\<close>
    and \<open>service (prompt_text (patientInfo st) (descriptionForApi st) (selectedTreatments st) (parts \<noteq> []))
           parts = Some text\<close>
  shows \<open>(JSON_parse text = None \<longrightarrow>
            fst (handleSubmit reader service st) =
              st\<lparr>error := Text failure_message, isLoading := False, prescription := JNull\<rparr>
            \<and> controller_state (fst (handleSubmit reader service st)) = Error)
         \<and> (\<forall>v. JSON_parse text = Some v \<longrightarrow>
              fst (handleSubmit reader service st) =
                st\<lparr>error := Null, isLoading := False, prescription := v\<rparr>)
         \<and> (\<forall>v title content adv.
              JSON_parse text = Some v \<and> field v ''illnessTitle'' = Some (JStr title) \<and>
              field v ''prescriptionContent'' = Some (JStr content) \<and> field v ''advice'' = Some (JStr adv) \<longrightarrow>
              controller_state (fst (handleSubmit reader service st)) = Result
              \<and> field (prescription (fst (handleSubmit reader service st))) ''illnessTitle'' = Some (JStr title)
              \<and> field (prescription (fst (handleSubmit reader service st))) ''prescriptionContent'' = Some (JStr content)
              \<and> field (prescription (fst (handleSubmit reader service st))) ''advice'' = Some (JStr adv))\<close>
proof -
  have obj: \<open>truthy v\<close> if \<open>field v k = Some x\<close> for v k x
    using that by (cases v) simp_all
  show ?thesis
    using handleSubmit_accepted [OF assms(1,2), of service] assms(3)
    by (auto simp: controller_state_def failure_message_def dest: obj)
qed

text \<open>A reply with the three fields gives the result; a truncated reply gives the Error state.\<close>

theorem reply_stored_as_parsed_witness:
  \<open>controller_state (fst (handleSubmit (\<lambda>f. None)
       (\<lambda>p fs. Some ''{"illnessTitle":"Flu","prescriptionContent":"## Rx","advice":"Rest"}'')
       (initial_state\<lparr>patientInfo := \<lparr>name = ''Aisha'', age = ''29'', district = ''Lahore'', cell = '''',
                                       religion = ''Islam'', language = ''Urdu''\<rparr>,
          symptomDescription := ''fever and cough'',
          selectedTreatments := [''Homeopathy'']\<rparr>))) = Result
   \<and> field (prescription (fst (handleSubmit (\<lambda>f. None)
       (\<lambda>p fs. Some ''{"illnessTitle":"Flu","prescriptionContent":"## Rx","advice":"Rest"}'')
       (initial_state\<lparr>patientInfo := \<lparr>name = ''Aisha'', age = ''29'', district = ''Lahore'', cell = '''',
                                       religion = ''Islam'', language = ''Urdu''\<rparr>,
          symptomDescription := ''fever and cough'',
          selectedTreatments := [''Homeopathy'']\<rparr>)))) ''prescriptionContent'' = Some (JStr ''## Rx'')
   \<and> controller_state (fst (handleSubmit (\<lambda>f. None) (\<lambda>p fs. Some ''{"illnessTitle":'')
       (initial_state\<lparr>patientInfo := \<lparr>name = ''Aisha'', age = ''29'', district = ''Lahore'', cell = '''',
                                       religion = ''Islam'', language = ''Urdu''\<rparr>,
          symptomDescription := ''fever and cough'',
          selectedTreatments := [''Homeopathy'']\<rparr>))) = Error\<close>
proof -
  let ?st = \<open>initial_state\<lparr>patientInfo := \<lparr>name = ''Aisha'', age = ''29'', district = ''Lahore'', cell = '''',
                                       religion = ''Islam'', language = ''Urdu''\<rparr>,
          symptomDescription := ''fever and cough'',
          selectedTreatments := [''Homeopathy'']\<rparr>\<close>
  have v: \<open>\<not> submit_rejected ?st\<close>
    by (simp add: submit_rejected_def isInputMissing_def initial_state_def ascii_space_def space3_def)
  have r: \<open>promise_all (map (fileToPart (\<lambda>f. None)) (uploadedFiles ?st)) = Inr []\<close>
    by (simp add: initial_state_def)
  have good: \<open>JSON_parse ''{"illnessTitle":"Flu","prescriptionContent":"## Rx","advice":"Rest"}'' =
      Some (JObj [(''illnessTitle'', JStr ''Flu''), (''prescriptionContent'', JStr ''## Rx''),
                  (''advice'', JStr ''Rest'')])\<close>
    by code_simp
  have bad: \<open>JSON_parse ''{"illnessTitle":'' = None\<close>
    by code_simp
  show ?thesis
    using reply_stored_as_parsed
        [OF v r, of \<open>\<lambda>p fs. Some ''{"illnessTitle":"Flu","prescriptionContent":"## Rx","advice":"Rest"}''\<close>
           \<open>''{"illnessTitle":"Flu","prescriptionContent":"## Rx","advice":"Rest"}''\<close>]
      reply_stored_as_parsed
        [OF v r, of \<open>\<lambda>p fs. Some ''{"illnessTitle":''\<close> \<open>''{"illnessTitle":''\<close>]
    by (simp add: good bad controller_state_def initial_state_def failure_message_def)
qed

text \<open>
  The other failures behave as the claim says: when the call to the service fails, the
  error is the generic message and the controller is in the Error state (a reply that
  does not parse is the first case of the amended C1); and no submission, failed or not,
  changes what the user entered.
\<close>

lemma service_failure_shows_message:
  assumes \<open>\<not> submit_rejected st\<close>
    and \<open>promise_all (map (fileToPart reader) (uploadedFiles st)) = Inr parts\<close>
    and \<open>service (prompt_text (patientInfo st) (descriptionForApi st) (selectedTreatments st) (parts \<noteq> []))
           parts = None\<close>
  shows \<open>fst (handleSubmit reader service st) =
           st\<lparr>error := Text failure_message, isLoading := False, prescription := JNull\<rparr>
         \<and> controller_state (fst (handleSubmit reader service st)) = Error\<close>
  using handleSubmit_accepted [OF assms(1,2), of service] assms(3)
  by (simp add: controller_state_def failure_message_def)

text \<open>
  Claim C7 at a failed read. In upload mode with one accepted file that cannot be read,
  the submission reads the file, makes no request and keeps the form; the error becomes
  \<open>undefined\<close>, since the rejection is the reader's event and has no message, so no alert
  is shown and the controller is in the Editing state, not in the Error state.
\<close>

theorem read_failure_leaves_no_message:
  \<open>handleSubmit (\<lambda>f. None) (\<lambda>p fs. Some ''{}'')
     (initial_state\<lparr>patientInfo := \<lparr>name = ''Aisha'', age = ''29'', district = ''Lahore'', cell = '''',
                                     religion = ''Islam'', language = ''Urdu''\<rparr>,
        selectedTreatments := [''Homeopathy''], activeTab := TabUpload,
        uploadedFiles := [\<lparr>file_name = ''a.png'', file_type = ''image/png'', file_size = 100\<rparr>]\<rparr>) =
   (initial_state\<lparr>patientInfo := \<lparr>name = ''Aisha'', age = ''29'', district = ''Lahore'', cell = '''',
                                     religion = ''Islam'', language = ''Urdu''\<rparr>,
        selectedTreatments := [''Homeopathy''], activeTab := TabUpload,
        uploadedFiles := [\<lparr>file_name = ''a.png'', file_type = ''image/png'', file_size = 100\<rparr>],
        error := Undefined\<rparr>,
    [ReadFile \<lparr>file_name = ''a.png'', file_type = ''image/png'', file_size = 100\<rparr>])
   \<and> controller_state (fst (handleSubmit (\<lambda>f. None) (\<lambda>p fs. Some ''{}'')
     (initial_state\<lparr>patientInfo := \<lparr>name = ''Aisha'', age = ''29'', district = ''Lahore'', cell = '''',
                                     religion = ''Islam'', language = ''Urdu''\<rparr>,
        selectedTreatments := [''Homeopathy''], activeTab := TabUpload,
        uploadedFiles := [\<lparr>file_name = ''a.png'', file_type = ''image/png'', file_size = 100\<rparr>]\<rparr>))) = Editing\<close>
proof -
  let ?st = \<open>initial_state\<lparr>patientInfo := \<lparr>name = ''Aisha'', age = ''29'', district = ''Lahore'', cell = '''',
                                     religion = ''Islam'', language = ''Urdu''\<rparr>,
        selectedTreatments := [''Homeopathy''], activeTab := TabUpload,
        uploadedFiles := [\<lparr>file_name = ''a.png'', file_type = ''image/png'', file_size = 100\<rparr>]\<rparr>\<close>
  have v: \<open>\<not> submit_rejected ?st\<close>
    by (simp add: submit_rejected_def isInputMissing_def initial_state_def)
  have r: \<open>promise_all (map (fileToPart (\<lambda>f. None)) (uploadedFiles ?st)) = Inl ProgressEvent\<close>
    by (simp add: initial_state_def fileToPart_def)
  show ?thesis
    using handleSubmit_read_failure [OF v r, of \<open>\<lambda>p fs. Some ''{}''\<close>]
    by (simp add: initial_state_def controller_state_def)
qed

section \<open>Properties of the prompt\<close>

lemma sublist_skip: \<open>sublist xs ys \<Longrightarrow> sublist xs (zs @ ys)\<close>
  by (metis append.assoc sublist_def)

lemma sublist_join: \<open>x \<in> set xs \<Longrightarrow> sublist x (join sep xs)\<close>
proof (induction sep xs rule: join.induct)
  case (1 sep)
  then show ?case by simp
next
  case (2 sep x')
  then show ?case by simp
next
  case (3 sep x' y ys)
  then show ?case
    by (auto intro: sublist_skip)
qed

lemma religiousRules_mem:
  \<open>t \<in> set selected \<Longrightarrow> religiousTreatmentPrompts t = Some frag \<Longrightarrow> frag \<in> set (religiousRules selected)\<close>
  by (force simp: religiousRules_def List.map_filter_def)

lemma islam_fragment:
  \<open>religiousTreatmentPrompts ''Quran & Asma-ul-Husna'' =
     Some (''- For "Quran & Asma-ul-Husna", provide relevant Quranic verses or duas, and recommend 'tasbeeh' (recitation) of Asma-ul-Husna relevant to healing. Use bullet points. If the target language is Urdu, this MUST be in Urdu script.'')\<close>
  by (simp add: religiousTreatmentPrompts_def religiousTreatmentPrompts_table_def RT_def
      ReligiousTreatments_def ReligiousTreatments_table_def urdu_script_rule_def)

lemma rules_in_prompt: \<open>sublist (prompt_rules (language p) sel) (prompt_text p d sel h)\<close>
  unfolding prompt_text_def by (rule sublist_append_rightI)

lemma task_in_prompt:
  \<open>sublist (if h then report_task (language p) sel else text_task (language p) sel) (prompt_text p d sel h)\<close>
  unfolding prompt_text_def
  by (rule sublist_append_rightI | rule sublist_skip)+

lemma summary_rule_in_task: \<open>sublist summary_first_rule (report_task lang sel)\<close>
  unfolding report_task_def
  by (rule sublist_append_rightI | rule sublist_skip)+

lemma analyze_step_in_task: \<open>sublist (analyze_reports_step lang) (report_task lang sel)\<close>
  unfolding report_task_def
  by (rule sublist_append_rightI | rule sublist_skip)+

lemma heading_rule_in_task: \<open>sublist (heading_per_treatment_rule lang) (text_task lang sel)\<close>
  unfolding text_task_def
  by (rule sublist_append_rightI | rule sublist_skip)+

lemma allopathy_in_rules: \<open>sublist allopathy_rule (prompt_rules lang sel)\<close>
  unfolding prompt_rules_def
  by (rule sublist_append_rightI | rule sublist_skip)+

lemma religious_in_rules:
  \<open>sublist (join ''\<newline>            '' (religiousRules sel)) (prompt_rules lang sel)\<close>
  unfolding prompt_rules_def
  by (rule sublist_append_rightI | rule sublist_skip)+

lemma in_report_prompt:
  assumes \<open>sublist x (report_task (language p) sel)\<close>
  shows \<open>sublist x (prompt_text p d sel True)\<close>
proof -
  have \<open>sublist (report_task (language p) sel) (prompt_text p d sel True)\<close>
    using task_in_prompt [of True p sel d] by simp
  with assms show ?thesis by (rule sublist_order.order_trans)
qed

lemma in_text_prompt:
  assumes \<open>sublist x (text_task (language p) sel)\<close>
  shows \<open>sublist x (prompt_text p d sel False)\<close>
proof -
  have \<open>sublist (text_task (language p) sel) (prompt_text p d sel False)\<close>
    using task_in_prompt [of False p sel d] by simp
  with assms show ?thesis by (rule sublist_order.order_trans)
qed

lemma in_rules_prompt:
  assumes \<open>sublist x (prompt_rules (language p) sel)\<close>
  shows \<open>sublist x (prompt_text p d sel h)\<close>
  using assms rules_in_prompt by (rule sublist_order.order_trans)

lemma generatePrescription_call:
  \<open>snd (generatePrescription service p d sel files) =
     [GenerateContent (prompt_text p d sel (files \<noteq> [])) files]\<close>
  by (simp add: generatePrescription_def Let_def)

text \<open>
  Claim C5. For every call of the prompt builder, the prompt it sends contains: when the
  list of file parts is non-empty, the rule that the content field must start with the
  Report Analysis Summary section, and the task that creates that heading, translated,
  and lists only abnormal findings; when the list is empty, the rule that the content
  field must contain a translated level-2 heading for each treatment type.
\<close>

theorem prompt_directs_content_structure:
  \<open>\<exists>prompt.
      snd (generatePrescription service p d sel files) = [GenerateContent prompt files]
    \<and> (files \<noteq> [] \<longrightarrow>
         sublist ''- The 'prescriptionContent' value MUST start with the 'Report Analysis Summary' section.'' prompt
       \<and> sublist (''2.  **Analyze Reports:** Create a level 2 heading "Report Analysis Summary" (translated to ''
                   @ language p @
                   ''). List **ONLY abnormal findings** in bullet points. Do not mention normal results.'') prompt)
    \<and> (files = [] \<longrightarrow>
         sublist (''- The 'prescriptionContent' value MUST contain a level 2 heading for each treatment type (e.g., "Homeopathy Prescription"), translated to ''
                   @ language p @ ''.'') prompt)\<close>
proof (cases \<open>files = []\<close>)
  case True
  have \<open>sublist (heading_per_treatment_rule (language p)) (prompt_text p d sel False)\<close>
    by (rule in_text_prompt [OF heading_rule_in_task])
  with True show ?thesis
    by (simp add: generatePrescription_call heading_per_treatment_rule_def)
next
  case False
  have \<open>sublist summary_first_rule (prompt_text p d sel True)\<close>
    and \<open>sublist (analyze_reports_step (language p)) (prompt_text p d sel True)\<close>
    by (rule in_report_prompt [OF summary_rule_in_task], rule in_report_prompt [OF analyze_step_in_task])
  with False show ?thesis
    by (simp add: generatePrescription_call summary_first_rule_def analyze_reports_step_def)
qed

text \<open>A call with one file part.\<close>

theorem prompt_directs_content_structure_witness:
  \<open>\<exists>prompt.
      snd (generatePrescription (\<lambda>p fs. None) default_patientInfo ''see the scan'' [''Homeopathy'']
             [\<lparr>mimeType = ''image/png'', data = Some ''AAAA''\<rparr>]) =
        [GenerateContent prompt [\<lparr>mimeType = ''image/png'', data = Some ''AAAA''\<rparr>]]
    \<and> sublist ''- The 'prescriptionContent' value MUST start with the 'Report Analysis Summary' section.'' prompt\<close>
  using prompt_directs_content_structure
    [of \<open>\<lambda>p fs. None\<close> default_patientInfo \<open>''see the scan''\<close> \<open>[''Homeopathy'']\<close>
        \<open>[\<lparr>mimeType = ''image/png'', data = Some ''AAAA''\<rparr>]\<close>]
  by auto

text \<open>
  Claim C6. For the patient Aisha (29, Lahore, Islam, Urdu) with the allopathy modality
  and the Islam label selected, the symptom text \<open>fever and cough\<close> and no attachment, the
  submission sends one request, without file parts, whose prompt contains the Islam
  fragment with its Urdu-script instruction and the allopathy rule with its bullet format
  (medicine name, dosage, duration, one item per bullet).
\<close>

theorem aisha_prompt_has_both_rules:
  \<open>\<exists>prompt.
      snd (handleSubmit reader service
        (initial_state\<lparr>patientInfo := \<lparr>name = ''Aisha'', age = ''29'', district = ''Lahore'', cell = '''',
                                        religion = ''Islam'', language = ''Urdu''\<rparr>,
           symptomDescription := ''fever and cough'',
           selectedTreatments := [''Allopathy (Specialist Doctors)'', ''Quran & Asma-ul-Husna'']\<rparr>)) =
        [GenerateContent prompt []]
    \<and> sublist ''- For "Quran & Asma-ul-Husna", provide relevant Quranic verses or duas, and recommend 'tasbeeh' (recitation) of Asma-ul-Husna relevant to healing. Use bullet points. If the target language is Urdu, this MUST be in Urdu script.'' prompt
    \<and> sublist ''- For **Allopathy (Specialist Doctors)**, act as a board-certified specialist for the specific condition. Prescribe a comprehensive, high-quality, and modern treatment plan. Include primary medications, any necessary supportive therapies (e.g., vitamins, antacids), and suggest relevant diagnostic tests if needed. Use the format: `Medicine Name, Dosage (e.g., 500mg, 1+1+1), Duration (e.g., 5 days)`. List each item on a new bullet point (*). Ensure the prescription is evidence-based and professional.'' prompt\<close>
proof -
  let ?p = \<open>\<lparr>name = ''Aisha'', age = ''29'', district = ''Lahore'', cell = '''',
             religion = ''Islam'', language = ''Urdu''\<rparr>\<close>
  let ?sel = \<open>[''Allopathy (Specialist Doctors)'', ''Quran & Asma-ul-Husna'']\<close>
  let ?st = \<open>initial_state\<lparr>patientInfo := ?p, symptomDescription := ''fever and cough'',
                selectedTreatments := ?sel\<rparr>\<close>
  let ?prompt = \<open>prompt_text ?p ''fever and cough'' ?sel False\<close>
  have v: \<open>\<not> submit_rejected ?st\<close>
    by (simp add: submit_rejected_def isInputMissing_def initial_state_def ascii_space_def space3_def)
  have \<open>handleSubmit reader service ?st =
          (fst (handleSubmit reader service ?st), [GenerateContent ?prompt []])\<close>
    using v
    by (simp add: handleSubmit_def generatePrescription_def Let_def initial_state_def descriptionForApi_def
        split: option.splits)
  then have call: \<open>snd (handleSubmit reader service ?st) = [GenerateContent ?prompt []]\<close>
    by (metis snd_conv)
  have \<open>sublist (join ''\<newline>            '' (religiousRules ?sel)) (prompt_rules (language ?p) ?sel)\<close>
    by (rule religious_in_rules)
  then have \<open>sublist (join ''\<newline>            '' (religiousRules ?sel)) ?prompt\<close>
    by (rule in_rules_prompt)
  moreover have \<open>sublist ''- For "Quran & Asma-ul-Husna", provide relevant Quranic verses or duas, and recommend 'tasbeeh' (recitation) of Asma-ul-Husna relevant to healing. Use bullet points. If the target language is Urdu, this MUST be in Urdu script.''
      (join ''\<newline>            '' (religiousRules ?sel))\<close>
    by (rule sublist_join, rule religiousRules_mem [OF _ islam_fragment]) simp
  ultimately have islam: \<open>sublist ''- For "Quran & Asma-ul-Husna", provide relevant Quranic verses or duas, and recommend 'tasbeeh' (recitation) of Asma-ul-Husna relevant to healing. Use bullet points. If the target language is Urdu, this MUST be in Urdu script.'' ?prompt\<close>
    by (rule sublist_order.order_trans [rotated])
  have \<open>sublist allopathy_rule (prompt_rules (language ?p) ?sel)\<close>
    by (rule allopathy_in_rules)
  then have \<open>sublist allopathy_rule ?prompt\<close>
    by (rule in_rules_prompt)
  then have allo: \<open>sublist ''- For **Allopathy (Specialist Doctors)**, act as a board-certified specialist for the specific condition. Prescribe a comprehensive, high-quality, and modern treatment plan. Include primary medications, any necessary supportive therapies (e.g., vitamins, antacids), and suggest relevant diagnostic tests if needed. Use the format: `Medicine Name, Dosage (e.g., 500mg, 1+1+1), Duration (e.g., 5 days)`. List each item on a new bullet point (*). Ensure the prescription is evidence-based and professional.'' ?prompt\<close>
    by (simp only: allopathy_rule_def)
  from call islam allo show ?thesis by blast
qed

end
